theory Spec2Isabelle
  imports Main "HOL-Library.Word" "HOL-Library.Sublist"
begin

section \<open>The Discord bridge of ChatPlug: data model\<close>

text \<open>
  The service (\<^verbatim>\<open>discord.go\<close>) talks to three collaborators that are not part of the
  repository: the Discord session of \<^verbatim>\<open>discordgo\<close>, Go's \<^verbatim>\<open>net/http\<close> and the ChatPlug hub
  client. Their data is modelled by records that carry the fields the service reads; their
  calls are modelled in the environment below.
\<close>

type_synonym go_error = string

text \<open>\<^verbatim>\<open>discordgo.Webhook\<close>, \<^verbatim>\<open>discordgo.Channel\<close>, \<^verbatim>\<open>discordgo.Guild\<close>, \<^verbatim>\<open>discordgo.User\<close>.\<close>

record Webhook =
  wh_ID :: string
  wh_Name :: string
  wh_Token :: string

record Channel =
  ch_ID :: string
  ch_Name :: string
  ch_Type :: int

record Guild =
  g_ID :: string
  g_Name :: string
  g_Icon :: string

record User =
  u_ID :: string
  u_Username :: string
  u_Avatar :: string

record MessageAttachment =
  ma_ID :: string
  ma_URL :: string

text \<open>\<^verbatim>\<open>discordgo.MessageCreate\<close>: the native event handed to \<^verbatim>\<open>discordMessageCreate\<close>.\<close>

record MessageCreate =
  m_ID :: string
  m_ChannelID :: string
  m_Content :: string
  m_Author :: User
  m_WebhookID :: string
  m_Attachments :: "MessageAttachment list"

text \<open>The hub client's types: \<^verbatim>\<open>AttachmentInput\<close>, \<^verbatim>\<open>SearchThreadInput\<close> and the message payload
  delivered on \<^verbatim>\<open>MessagesChan\<close>.\<close>

record AttachmentInput =
  ai_Type :: string
  ai_OriginID :: string
  ai_SourceURL :: string

record SearchThreadInput =
  sti_Name :: string
  sti_IconURL :: string
  sti_OriginID :: string

record MessageAuthor =
  au_Username :: string
  au_AvatarURL :: string

record Attachment =
  at_SourceURL :: string

record Message =
  msg_Author :: MessageAuthor
  msg_Body :: string
  msg_Attachments :: "Attachment list"

record MessagePayload =
  TargetThreadID :: string
  Message :: Message

text \<open>\<^verbatim>\<open>WebhookPayload\<close> of the service itself.\<close>

record WebhookPayload =
  Content :: string
  Username :: string
  AvatarURL :: string

text \<open>
  The body built by \<^verbatim>\<open>multipart.Writer\<close> over a \<^verbatim>\<open>bytes.Buffer\<close>, as the sequence of its parts:
  \<^verbatim>\<open>CreateFormField name\<close> opens a field part, \<^verbatim>\<open>CreateFormFile fieldname filename\<close> opens a
  file part, and what is written to the returned writer is the part's content. Writes
  to a \<^verbatim>\<open>bytes.Buffer\<close> do not fail, so the \<^verbatim>\<open>log.Fatalln\<close> branches after
  \<^verbatim>\<open>CreateFormField\<close> and \<^verbatim>\<open>Write\<close> and the error branch after \<^verbatim>\<open>CreateFormFile\<close> are not
  reached.
\<close>

datatype part =
    FormField string string
  | FormFile string string string

text \<open>\<^verbatim>\<open>http.Response\<close>: the status, the declared length (an \<^verbatim>\<open>int64\<close>) and the body stream,
  which delivers \<open>Body_data\<close> and then ends, with a read error when \<open>Body_err\<close> is set.\<close>

record Response =
  StatusCode :: int
  ContentLength :: "64 word"
  Body_data :: string
  Body_err :: "go_error option"

subsection \<open>Calls to the collaborators\<close>

text \<open>
  Every call the service makes to a collaborator is an event; the history of events is
  the state that is passed along. A Go call returning \<^verbatim>\<open>(value, err)\<close> answers with a
  pair: a nil pointer is \<open>None\<close>, a nil slice is the empty list, a nil error is \<open>None\<close>.
  The answer may depend on everything that happened before.
\<close>

datatype event =
    EvChannelWebhooks string
  | EvChannel string
  | EvWebhookCreate string string string
  | EvWebhook string
  | EvGuildChannels string
  | EvHead string
  | EvGet string
  | EvPost string "part list"
  | EvSendMessage string string string string string string "AttachmentInput list"
  | EvSetSearchResponse string "SearchThreadInput list"

record env =
  ChannelWebhooks :: "event list \<Rightarrow> string \<Rightarrow> Webhook list \<times> go_error option"
  ChannelLookup :: "event list \<Rightarrow> string \<Rightarrow> Channel option \<times> go_error option"
  WebhookCreate :: "event list \<Rightarrow> string \<Rightarrow> string \<Rightarrow> string \<Rightarrow> Webhook option \<times> go_error option"
  WebhookLookup :: "event list \<Rightarrow> string \<Rightarrow> Webhook option \<times> go_error option"
  GuildChannels :: "event list \<Rightarrow> string \<Rightarrow> Channel list \<times> go_error option"
  http_Head :: "event list \<Rightarrow> string \<Rightarrow> Response option \<times> go_error option"
  http_Get :: "event list \<Rightarrow> string \<Rightarrow> Response option \<times> go_error option"
  http_NewRequest :: "string \<Rightarrow> go_error option"
  http_Do :: "event list \<Rightarrow> string \<Rightarrow> part list \<Rightarrow> Response option \<times> go_error option"
  json_Marshal :: "WebhookPayload \<Rightarrow> string"
  User_AvatarURL :: "User \<Rightarrow> string \<Rightarrow> string"

text \<open>A run either returns or stops the process with a nil-pointer panic.\<close>

datatype 'a exec = Returns 'a | Panic

subsection \<open>Go's string functions\<close>

text \<open>\<^verbatim>\<open>strings.HasPrefix s prefix\<close> is
  \<^verbatim>\<open>len(s) >= len(prefix) && s[0:len(prefix)] == prefix\<close>.\<close>

definition HasPrefix :: "string \<Rightarrow> string \<Rightarrow> bool" where
  "HasPrefix s p = (length p \<le> length s \<and> take (length p) s = p)"

text \<open>\<^verbatim>\<open>strings.Contains s substr\<close>: \<open>substr\<close> occurs in \<open>s\<close> at some position, byte for byte.\<close>

fun Contains :: "string \<Rightarrow> string \<Rightarrow> bool" where
  "Contains [] sub = (sub = [])"
| "Contains (c # cs) sub = (HasPrefix (c # cs) sub \<or> Contains cs sub)"

text \<open>\<^verbatim>\<open>path.Base\<close>: the empty path is \<^verbatim>\<open>.\<close>, trailing slashes are stripped, the last
  element is kept, and a path of slashes only is \<^verbatim>\<open>/\<close>.\<close>

definition stripTrailingSlashes :: "string \<Rightarrow> string" where
  "stripTrailingSlashes p = rev (dropWhile (\<lambda>c. c = CHR ''/'') (rev p))"

definition lastElement :: "string \<Rightarrow> string" where
  "lastElement p = rev (takeWhile (\<lambda>c. c \<noteq> CHR ''/'') (rev p))"

definition Base :: "string \<Rightarrow> string" where
  "Base p =
     (if p = [] then ''.''
      else let q = lastElement (stripTrailingSlashes p)
           in if q = [] then ''/'' else q)"

section \<open>The service\<close>

definition bridgeTag :: string where
  "bridgeTag = ''ChatPlug ''"

definition defaultIcon :: string where
  "defaultIcon = ''https://i.imgur.com/l2QP9Go.png''"

definition ChannelTypeGuildText :: int where
  "ChannelTypeGuildText = 0"

subsection \<open>\<^verbatim>\<open>discordMessageCreate\<close>: platform events to the hub\<close>

text \<open>
  The handler gets the session's own user (\<^verbatim>\<open>s.State.User\<close>) and the event; both and the
  event's author are taken as non-nil, as the SDK delivers them. It returns the history
  extended by the calls it made.
\<close>

definition toAttachmentInput :: "MessageAttachment \<Rightarrow> AttachmentInput" where
  "toAttachmentInput discordAttachment =
     \<lparr>ai_Type = ''IMAGE'', ai_OriginID = ma_ID discordAttachment,
      ai_SourceURL = ma_URL discordAttachment\<rparr>"

definition discordMessageCreate :: "env \<Rightarrow> event list \<Rightarrow> User \<Rightarrow> MessageCreate \<Rightarrow> event list" where
  "discordMessageCreate env h self m =
     (if u_ID (m_Author m) = u_ID self then h
      else
        let (webhook, err) = WebhookLookup env h (m_WebhookID m);
            h1 = h @ [EvWebhook (m_WebhookID m)];
            own = (case webhook of
                     None \<Rightarrow> False
                   | Some wh \<Rightarrow> err = None \<and> HasPrefix (wh_Name wh) bridgeTag)
        in if own then h1
           else
             let attachments = map toAttachmentInput (m_Attachments m)
             in h1 @ [EvSendMessage (m_Content m) (m_ID m) (m_ChannelID m)
                        (u_Username (m_Author m)) (u_ID (m_Author m))
                        (User_AvatarURL env (m_Author m) ''medium'') attachments])"

text \<open>The hub calls among the events.\<close>

fun isSendMessage :: "event \<Rightarrow> bool" where
  "isSendMessage (EvSendMessage c i ch u a av ats) = True"
| "isSendMessage e = False"

subsection \<open>\<^verbatim>\<open>DownloadFile\<close>\<close>

text \<open>
  The result is the returned error and the bytes written to \<open>dst\<close>. \<open>dst\<close> is a part
  of the multipart buffer, whose writes do not fail, so \<^verbatim>\<open>io.Copy\<close> writes what the body
  delivers and returns the body's read error. Reading a field of a nil response panics.
\<close>

definition maxContentLength :: "64 word" where
  "maxContentLength = 8 * 1024 * 1024"

definition DownloadFile ::
  "env \<Rightarrow> event list \<Rightarrow> string \<Rightarrow> (go_error option \<times> string) exec \<times> event list" where
  "DownloadFile env h url =
     (let filename = Base url;
          (head, err) = http_Head env h url;
          h1 = h @ [EvHead url]
      in (case err of
            Some e \<Rightarrow> (Returns (Some e, []), h1)
          | None \<Rightarrow>
              (case head of
                 None \<Rightarrow> (Panic, h1)
               | Some hdr \<Rightarrow>
                   (if maxContentLength <s ContentLength hdr
                    then (Returns (Some (''File '' @ filename @ '' too big''), []), h1)
                    else
                      (let (resp, err) = http_Get env h1 url;
                           h2 = h1 @ [EvGet url]
                       in (case err of
                             Some e \<Rightarrow> (Returns (Some e, []), h2)
                           | None \<Rightarrow>
                               (case resp of
                                  None \<Rightarrow> (Panic, h2)
                                | Some r \<Rightarrow> (Returns (Body_err r, Body_data r), h2))))))))"

subsection \<open>\<^verbatim>\<open>handleMessages\<close>: hub messages to the platform\<close>

text \<open>The scan of the channel's webhooks (the first \<^verbatim>\<open>for\<close> of the loop body): every hook
  whose name has the tag overwrites \<^verbatim>\<open>webhook\<close>; there is no \<^verbatim>\<open>break\<close>. The entries of the
  listing are taken as non-nil.\<close>

fun scanWebhooks :: "Webhook list \<Rightarrow> bool \<times> Webhook option \<Rightarrow> bool \<times> Webhook option" where
  "scanWebhooks [] acc = acc"
| "scanWebhooks (hook # hooks) (hasWebhook, webhook) =
     (if HasPrefix (wh_Name hook) bridgeTag
      then scanWebhooks hooks (True, Some hook)
      else scanWebhooks hooks (hasWebhook, webhook))"

text \<open>
  Finding or creating the channel's webhook (from \<^verbatim>\<open>ChannelWebhooks\<close> to the end of
  \<^verbatim>\<open>if !hasWebhook\<close>). All three errors are discarded with \<^verbatim>\<open>_\<close>. The result is the pointer
  \<^verbatim>\<open>webhook\<close>, nil when the creation gave none; \<^verbatim>\<open>channel.Name\<close> on a nil channel panics
  before the creation is called.
\<close>

definition resolveWebhook ::
  "env \<Rightarrow> event list \<Rightarrow> string \<Rightarrow> Webhook option exec \<times> event list" where
  "resolveWebhook env h tid =
     (let webhooks = fst (ChannelWebhooks env h tid);
          h1 = h @ [EvChannelWebhooks tid];
          (hasWebhook, webhook) = scanWebhooks webhooks (False, None)
      in if \<not> hasWebhook then
           (let channel = fst (ChannelLookup env h1 tid);
                h2 = h1 @ [EvChannel tid]
            in case channel of
                 None \<Rightarrow> (Panic, h2)
               | Some ch \<Rightarrow>
                   let name = bridgeTag @ ch_Name ch;
                       created = fst (WebhookCreate env h2 tid name defaultIcon)
                   in (Returns created, h2 @ [EvWebhookCreate tid name defaultIcon]))
         else (Returns webhook, h1))"

text \<open>The attachment loop: the file part is opened before the download, and a failed
  download goes on with the next attachment.\<close>

fun writeAttachments ::
  "env \<Rightarrow> event list \<Rightarrow> Attachment list \<Rightarrow> part list \<Rightarrow> part list exec \<times> event list" where
  "writeAttachments env h [] body = (Returns body, h)"
| "writeAttachments env h (attachment # rest) body =
     (let filename = Base (at_SourceURL attachment)
      in case DownloadFile env h (at_SourceURL attachment) of
           (Panic, h') \<Rightarrow> (Panic, h')
         | (Returns (err, written), h') \<Rightarrow>
             writeAttachments env h' rest (body @ [FormFile filename filename written]))"

definition webhookURL :: "Webhook \<Rightarrow> string" where
  "webhookURL webhook =
     ''https://discordapp.com/api/webhooks/'' @ wh_ID webhook @ ''/'' @ wh_Token webhook"

text \<open>
  One iteration of the loop. \<^verbatim>\<open>webhook.ID\<close> on a nil webhook, \<^verbatim>\<open>req.Header\<close> on a nil
  request and \<^verbatim>\<open>response.StatusCode\<close> on a nil response panic; the errors of
  \<^verbatim>\<open>http.NewRequest\<close> and \<^verbatim>\<open>client.Do\<close> are only printed. Printing is not an event.
\<close>

definition handleMessage :: "env \<Rightarrow> event list \<Rightarrow> MessagePayload \<Rightarrow> unit exec \<times> event list" where
  "handleMessage env h msg =
     (case resolveWebhook env h (TargetThreadID msg) of
        (Panic, h1) \<Rightarrow> (Panic, h1)
      | (Returns None, h1) \<Rightarrow> (Panic, h1)
      | (Returns (Some webhook), h1) \<Rightarrow>
          (let url = webhookURL webhook;
               payload = json_Marshal env
                 \<lparr>Content = msg_Body (Message msg),
                  Username = au_Username (msg_Author (Message msg)),
                  AvatarURL = au_AvatarURL (msg_Author (Message msg))\<rparr>
           in (case writeAttachments env h1 (msg_Attachments (Message msg))
                     [FormField ''payload_json'' payload] of
                 (Panic, h2) \<Rightarrow> (Panic, h2)
               | (Returns body, h2) \<Rightarrow>
                   (case http_NewRequest env url of
                      Some e \<Rightarrow> (Panic, h2)
                    | None \<Rightarrow>
                        (let response = fst (http_Do env h2 url body);
                             h3 = h2 @ [EvPost url body]
                         in (case response of
                               None \<Rightarrow> (Panic, h3)
                             | Some r \<Rightarrow> (Returns (), h3)))))))"

text \<open>The loop over \<^verbatim>\<open>MessagesChan\<close>, on the messages delivered until the channel is closed.
  A panic ends the process, and with it the loop.\<close>

fun handleMessages :: "env \<Rightarrow> event list \<Rightarrow> MessagePayload list \<Rightarrow> unit exec \<times> event list" where
  "handleMessages env h [] = (Returns (), h)"
| "handleMessages env h (msg # msgs) =
     (case handleMessage env h msg of
        (Panic, h') \<Rightarrow> (Panic, h')
      | (Returns u, h') \<Rightarrow> handleMessages env h' msgs)"

fun isWebhookCreate :: "event \<Rightarrow> bool" where
  "isWebhookCreate (EvWebhookCreate c n a) = True"
| "isWebhookCreate e = False"

fun isPost :: "event \<Rightarrow> bool" where
  "isPost (EvPost u b) = True"
| "isPost e = False"

subsection \<open>The search loop of \<^verbatim>\<open>Startup\<close>\<close>

definition searchResult :: "Guild \<Rightarrow> Channel \<Rightarrow> SearchThreadInput" where
  "searchResult guild channel =
     \<lparr>sti_Name = g_Name guild @ '' - '' @ ch_Name channel,
      sti_IconURL = ''http://cdn.discordapp.com/icons/'' @ g_ID guild @ ''/'' @ g_Icon guild @ ''.png'',
      sti_OriginID = ch_ID channel\<rparr>"

text \<open>The inner loop over the channels of one guild.\<close>

fun searchChannels ::
  "string \<Rightarrow> Guild \<Rightarrow> Channel list \<Rightarrow> SearchThreadInput list \<Rightarrow> SearchThreadInput list" where
  "searchChannels query guild [] threadResults = threadResults"
| "searchChannels query guild (channel # channels) threadResults =
     (if length threadResults < 30
         \<and> (Contains (ch_Name channel) query \<or> Contains (g_Name guild) query)
         \<and> ch_Type channel = ChannelTypeGuildText
      then searchChannels query guild channels (threadResults @ [searchResult guild channel])
      else searchChannels query guild channels threadResults)"

text \<open>The outer loop over \<^verbatim>\<open>State.Guilds\<close>; the error of \<^verbatim>\<open>GuildChannels\<close> is discarded.\<close>

fun searchGuilds ::
  "env \<Rightarrow> event list \<Rightarrow> string \<Rightarrow> Guild list \<Rightarrow> SearchThreadInput list
     \<Rightarrow> SearchThreadInput list \<times> event list" where
  "searchGuilds env h query [] threadResults = (threadResults, h)"
| "searchGuilds env h query (guild # guilds) threadResults =
     (let channels = fst (GuildChannels env h (g_ID guild));
          h1 = h @ [EvGuildChannels (g_ID guild)]
      in searchGuilds env h1 query guilds (searchChannels query guild channels threadResults))"

text \<open>One iteration of the loop over \<^verbatim>\<open>SearchRequestsChan\<close>, on the guilds the session
  state holds.\<close>

definition handleSearchRequest :: "env \<Rightarrow> event list \<Rightarrow> Guild list \<Rightarrow> string \<Rightarrow> event list" where
  "handleSearchRequest env h guilds query =
     (let (threadResults, h') = searchGuilds env h query guilds []
      in h' @ [EvSetSearchResponse query threadResults])"

section \<open>Notions the properties are stated with\<close>

text \<open>The kinds of events.\<close>

fun isFetch :: "event \<Rightarrow> bool" where
  "isFetch (EvHead u) = True"
| "isFetch (EvGet u) = True"
| "isFetch e = False"

text \<open>A webhook the bridge recognizes as its own.\<close>

definition isRecognized :: "Webhook \<Rightarrow> bool" where
  "isRecognized hook = HasPrefix (wh_Name hook) bridgeTag"

text \<open>\<^verbatim>\<open>DownloadFile\<close> refuses before any download: it returns an error, has written nothing
  and has issued the probe only.\<close>

definition refusedBeforeDownload :: "env \<Rightarrow> event list \<Rightarrow> string \<Rightarrow> bool" where
  "refusedBeforeDownload env h url =
     (case DownloadFile env h url of
        (Returns (Some e, written), h') \<Rightarrow> written = [] \<and> h' = h @ [EvHead url]
      | _ \<Rightarrow> False)"

text \<open>The file names of the file parts of a body.\<close>

fun fileNames :: "part list \<Rightarrow> string list" where
  "fileNames [] = []"
| "fileNames (FormFile field filename content # ps) = filename # fileNames ps"
| "fileNames (FormField field content # ps) = fileNames ps"

text \<open>
  The search as the specification words it. \<open>guildListings\<close> is the enumeration the
  responder sees: each known guild with the channels the platform lists for it when asked.
  A channel is a candidate when it is a text channel and the query is a substring of its
  name or of the guild's name; the candidates are collected guild by guild, channel by
  channel.
\<close>

fun guildListings :: "env \<Rightarrow> event list \<Rightarrow> Guild list \<Rightarrow> (Guild \<times> Channel list) list" where
  "guildListings env h [] = []"
| "guildListings env h (guild # guilds) =
     (guild, fst (GuildChannels env h (g_ID guild)))
       # guildListings env (h @ [EvGuildChannels (g_ID guild)]) guilds"

definition isCandidate :: "string \<Rightarrow> Guild \<Rightarrow> Channel \<Rightarrow> bool" where
  "isCandidate query guild channel =
     (ch_Type channel = ChannelTypeGuildText
      \<and> (sublist query (ch_Name channel) \<or> sublist query (g_Name guild)))"

definition candidates :: "string \<Rightarrow> (Guild \<times> Channel list) list \<Rightarrow> SearchThreadInput list" where
  "candidates query listings =
     concat (map (\<lambda>(guild, channels).
                    map (searchResult guild) (filter (isCandidate query guild) channels))
                 listings)"

section \<open>Example inputs\<close>

text \<open>An environment in which every call fails, and the values the examples below
  change in it.\<close>

definition idleEnv :: env where
  "idleEnv =
     \<lparr>ChannelWebhooks = (\<lambda>h c. ([], Some ''HTTP 403'')),
      ChannelLookup = (\<lambda>h c. (None, Some ''HTTP 404'')),
      WebhookCreate = (\<lambda>h c n a. (None, Some ''HTTP 403'')),
      WebhookLookup = (\<lambda>h i. (None, Some ''HTTP 404'')),
      GuildChannels = (\<lambda>h g. ([], Some ''HTTP 403'')),
      http_Head = (\<lambda>h u. (None, Some ''no such host'')),
      http_Get = (\<lambda>h u. (None, Some ''no such host'')),
      http_NewRequest = (\<lambda>u. None),
      http_Do = (\<lambda>h u b. (None, Some ''no such host'')),
      json_Marshal = (\<lambda>p. Content p),
      User_AvatarURL = (\<lambda>u size. u_Avatar u)\<rparr>"

definition bridgeUser :: User where
  "bridgeUser = \<lparr>u_ID = ''42'', u_Username = ''bridge'', u_Avatar = ''b.png''\<rparr>"

definition hookUser :: User where
  "hookUser = \<lparr>u_ID = ''900'', u_Username = ''alice'', u_Avatar = ''a.png''\<rparr>"

definition bridgeHook :: Webhook where
  "bridgeHook = \<lparr>wh_ID = ''900'', wh_Name = ''ChatPlug general'', wh_Token = ''tok900''\<rparr>"

definition secondHook :: Webhook where
  "secondHook = \<lparr>wh_ID = ''902'', wh_Name = ''ChatPlug old'', wh_Token = ''tok902''\<rparr>"

definition createdHook :: Webhook where
  "createdHook = \<lparr>wh_ID = ''901'', wh_Name = ''ChatPlug general'', wh_Token = ''tok901''\<rparr>"

definition ownEvent :: MessageCreate where
  "ownEvent =
     \<lparr>m_ID = ''m1'', m_ChannelID = ''123'', m_Content = ''hi'', m_Author = bridgeUser,
      m_WebhookID = [], m_Attachments = []\<rparr>"

definition echoEvent :: MessageCreate where
  "echoEvent =
     \<lparr>m_ID = ''m2'', m_ChannelID = ''123'', m_Content = ''hi'', m_Author = hookUser,
      m_WebhookID = ''900'', m_Attachments = []\<rparr>"

definition echoEnv :: env where
  "echoEnv =
     idleEnv\<lparr>WebhookLookup :=
       (\<lambda>h i. if i = ''900'' then (Some bridgeHook, None) else (None, Some ''HTTP 404''))\<rparr>"

definition channel123 :: Channel where
  "channel123 = \<lparr>ch_ID = ''123'', ch_Name = ''general'', ch_Type = 0\<rparr>"

definition okResponse :: Response where
  "okResponse = \<lparr>StatusCode = 204, ContentLength = 0, Body_data = [], Body_err = None\<rparr>"

definition hiMessage :: MessagePayload where
  "hiMessage =
     \<lparr>TargetThreadID = ''123'',
      Message = \<lparr>msg_Author = \<lparr>au_Username = ''alice'', au_AvatarURL = ''https://hub.example/alice.png''\<rparr>,
                 msg_Body = ''hi'', msg_Attachments = []\<rparr>\<rparr>"

text \<open>No webhook in the channel and the creation fails; the same with a platform that
  creates the webhook under the requested name.\<close>

definition createFailsEnv :: env where
  "createFailsEnv =
     idleEnv\<lparr>ChannelWebhooks := (\<lambda>h c. ([], None)),
             ChannelLookup := (\<lambda>h c. (Some channel123, None))\<rparr>"

definition freshChannelEnv :: env where
  "freshChannelEnv =
     createFailsEnv\<lparr>WebhookCreate :=
                      (\<lambda>h c n a. (Some \<lparr>wh_ID = ''901'', wh_Name = n, wh_Token = ''tok901''\<rparr>, None)),
                    http_Do := (\<lambda>h u b. (Some okResponse, None))\<rparr>"

text \<open>The bridge's webhook is in the channel: with a POST that fails, with one that
  succeeds, and with a second tagged webhook behind the first.\<close>

definition postFailsEnv :: env where
  "postFailsEnv = idleEnv\<lparr>ChannelWebhooks := (\<lambda>h c. ([bridgeHook], None))\<rparr>"

definition hookedEnv :: env where
  "hookedEnv = postFailsEnv\<lparr>http_Do := (\<lambda>h u b. (Some okResponse, None))\<rparr>"

definition twoHooksEnv :: env where
  "twoHooksEnv = hookedEnv\<lparr>ChannelWebhooks := (\<lambda>h c. ([bridgeHook, secondHook], None))\<rparr>"

text \<open>Two attachments: the host of the first is unreachable, the second is a file of three
  bytes.\<close>

definition urlA :: string where
  "urlA = ''https://cdn.example/f/a.png''"

definition urlB :: string where
  "urlB = ''https://cdn.example/f/b.png''"

definition partialEnv :: env where
  "partialEnv =
     hookedEnv\<lparr>http_Head :=
                  (\<lambda>h u. if u = urlB then (Some (okResponse\<lparr>StatusCode := 200, ContentLength := 3\<rparr>), None)
                         else (None, Some ''no such host'')),
               http_Get :=
                  (\<lambda>h u. if u = urlB
                         then (Some (okResponse\<lparr>StatusCode := 200, ContentLength := 3, Body_data := ''PNG''\<rparr>), None)
                         else (None, Some ''no such host''))\<rparr>"

definition twoAttachments :: MessagePayload where
  "twoAttachments =
     hiMessage\<lparr>Message := (Message hiMessage)\<lparr>msg_Attachments :=
                  [\<lparr>at_SourceURL = urlA\<rparr>, \<lparr>at_SourceURL = urlB\<rparr>]\<rparr>\<rparr>"

text \<open>A source that declares \<open>n\<close> bytes.\<close>

definition sizedEnv :: "64 word \<Rightarrow> env" where
  "sizedEnv n =
     idleEnv\<lparr>http_Head := (\<lambda>h u. (Some (okResponse\<lparr>StatusCode := 200, ContentLength := n\<rparr>), None)),
             http_Get := (\<lambda>h u. (Some (okResponse\<lparr>StatusCode := 200, ContentLength := n,
                                                  Body_data := ''data''\<rparr>), None))\<rparr>"

text \<open>A guild with a voice channel and two text channels.\<close>

definition testGuild :: Guild where
  "testGuild = \<lparr>g_ID = ''g1'', g_Name = ''Test Guild'', g_Icon = ''abc''\<rparr>"

definition generalChat :: Channel where
  "generalChat = \<lparr>ch_ID = ''555'', ch_Name = ''general-chat'', ch_Type = 0\<rparr>"

definition generalVoice :: Channel where
  "generalVoice = \<lparr>ch_ID = ''556'', ch_Name = ''general-voice'', ch_Type = 2\<rparr>"

definition randomChat :: Channel where
  "randomChat = \<lparr>ch_ID = ''557'', ch_Name = ''random'', ch_Type = 0\<rparr>"

definition searchEnv :: env where
  "searchEnv = idleEnv\<lparr>GuildChannels := (\<lambda>h g. ([generalVoice, randomChat, generalChat], None))\<rparr>"

text \<open>No webhook in the channel and the channel lookup fails; a platform that creates
  the webhook under another name than the one requested.\<close>

definition noChannelEnv :: env where
  "noChannelEnv = idleEnv\<lparr>ChannelWebhooks := (\<lambda>h c. ([], None))\<rparr>"

definition renamedHook :: Webhook where
  "renamedHook = \<lparr>wh_ID = ''901'', wh_Name = ''Renamed'', wh_Token = ''tok901''\<rparr>"

definition renamingEnv :: env where
  "renamingEnv = freshChannelEnv\<lparr>WebhookCreate := (\<lambda>h c n a. (Some renamedHook, None))\<rparr>"

section \<open>Properties\<close>

subsection \<open>Go's string functions are the prefix and substring relations\<close>

lemma HasPrefix_prefix: "HasPrefix s p \<longleftrightarrow> prefix p s"
proof
  assume "HasPrefix s p"
  then have "s = p @ drop (length p) s"
    by (metis HasPrefix_def append_take_drop_id)
  then show "prefix p s"
    by (metis prefixI)
next
  assume "prefix p s"
  then obtain zs where "s = p @ zs"
    by (auto simp: prefix_def)
  then show "HasPrefix s p"
    by (simp add: HasPrefix_def)
qed

lemma Contains_sublist: "Contains s sub \<longleftrightarrow> sublist sub s"
  by (induction s) (simp_all add: HasPrefix_prefix sublist_Cons_right)

subsection \<open>Events from the platform\<close>

text \<open>An event that is neither the bridge's own nor sent through a tagged webhook is
  forwarded with one \<^verbatim>\<open>SendMessage\<close>: the suppression below is not the handler doing nothing.\<close>

lemma foreign_event_forwarded:
  assumes "u_ID (m_Author m) \<noteq> u_ID self"
    and "fst (WebhookLookup env h (m_WebhookID m)) = None"
  shows "discordMessageCreate env h self m =
           h @ [EvWebhook (m_WebhookID m),
                EvSendMessage (m_Content m) (m_ID m) (m_ChannelID m) (u_Username (m_Author m))
                  (u_ID (m_Author m)) (User_AvatarURL env (m_Author m) ''medium'')
                  (map toAttachmentInput (m_Attachments m))]"
  using assms by (auto simp: discordMessageCreate_def Let_def split: prod.splits)

text \<open>
  C9 (self-author suppression). When the author of a platform event has the ID of the
  bridge's own account, the handler returns at once: the history is unchanged, so no call
  is made at all and nothing is forwarded to the hub.
\<close>

theorem self_authored_not_forwarded:
  assumes "u_ID (m_Author m) = u_ID self"
  shows "discordMessageCreate env h self m = h
         \<and> filter isSendMessage (discordMessageCreate env h self m) = filter isSendMessage h"
  using assms by (simp add: discordMessageCreate_def)

theorem self_authored_not_forwarded_witness:
  "u_ID (m_Author ownEvent) = u_ID bridgeUser
   \<and> discordMessageCreate idleEnv [] bridgeUser ownEvent = []
   \<and> filter isSendMessage (discordMessageCreate idleEnv [] bridgeUser ownEvent) = []"
  using self_authored_not_forwarded [of ownEvent bridgeUser idleEnv "[]"]
  by (simp add: ownEvent_def)

text \<open>
  C1 (loop suppression). When the lookup of the event's webhook reference succeeds (a
  webhook and a nil error) and the webhook's name starts with the tag \<^verbatim>\<open>ChatPlug \<close>, the
  handler makes no \<^verbatim>\<open>SendMessage\<close> call: the hub calls in the history are those that were
  there before, and the handler adds at most the lookup itself.
\<close>

theorem bridge_webhook_not_forwarded:
  assumes "WebhookLookup env h (m_WebhookID m) = (Some wh, None)"
    and "HasPrefix (wh_Name wh) bridgeTag"
  shows "filter isSendMessage (discordMessageCreate env h self m) = filter isSendMessage h
         \<and> (discordMessageCreate env h self m = h
              \<or> discordMessageCreate env h self m = h @ [EvWebhook (m_WebhookID m)])"
  using assms by (simp add: discordMessageCreate_def)

theorem bridge_webhook_not_forwarded_witness:
  "WebhookLookup echoEnv [] (m_WebhookID echoEvent) = (Some bridgeHook, None)
   \<and> HasPrefix (wh_Name bridgeHook) bridgeTag
   \<and> filter isSendMessage (discordMessageCreate echoEnv [] bridgeUser echoEvent) = []
   \<and> discordMessageCreate echoEnv [] bridgeUser echoEvent = [EvWebhook ''900'']"
proof -
  have lookup: "WebhookLookup echoEnv [] (m_WebhookID echoEvent) = (Some bridgeHook, None)"
    by (simp add: echoEnv_def echoEvent_def)
  have tagged: "HasPrefix (wh_Name bridgeHook) bridgeTag"
    by (simp add: bridgeHook_def bridgeTag_def HasPrefix_def)
  have other: "u_ID (m_Author echoEvent) \<noteq> u_ID bridgeUser"
    by (simp add: echoEvent_def hookUser_def bridgeUser_def)
  show ?thesis
    using bridge_webhook_not_forwarded [OF lookup tagged, of bridgeUser] lookup tagged other
    by (simp add: discordMessageCreate_def echoEvent_def)
qed

subsection \<open>\<^verbatim>\<open>DownloadFile\<close>\<close>

lemma sint_maxContentLength: "sint maxContentLength = 8388608"
  by (simp add: maxContentLength_def)

text \<open>
  C4 (size ceiling). When the probe and the download answer with a response and a nil
  error, \<^verbatim>\<open>DownloadFile\<close> fails before any download, with nothing written to the sink,
  exactly when the declared length is greater than 8 MiB; at 8 MiB or less (so at 8 MiB
  minus one byte) the download is made and the body goes to the sink.
\<close>

theorem size_ceiling:
  assumes "http_Head env h url = (Some hdr, None)"
    and "http_Get env (h @ [EvHead url]) url = (Some r, None)"
  shows "(refusedBeforeDownload env h url \<longleftrightarrow> 8 * 1024 * 1024 < sint (ContentLength hdr))
         \<and> (sint (ContentLength hdr) \<le> 8 * 1024 * 1024 \<longrightarrow>
               DownloadFile env h url
                 = (Returns (Body_err r, Body_data r), h @ [EvHead url, EvGet url]))"
proof -
  have run: "DownloadFile env h url =
      (if maxContentLength <s ContentLength hdr
       then (Returns (Some (''File '' @ Base url @ '' too big''), []), h @ [EvHead url])
       else (Returns (Body_err r, Body_data r), h @ [EvHead url, EvGet url]))"
    using assms by (simp add: DownloadFile_def Let_def)
  show ?thesis
    by (simp add: refusedBeforeDownload_def run word_sless_alt sint_maxContentLength
        split: option.splits)
qed

theorem size_ceiling_witness:
  "\<not> refusedBeforeDownload (sizedEnv 8388607) [] urlA
   \<and> DownloadFile (sizedEnv 8388607) [] urlA = (Returns (None, ''data''), [EvHead urlA, EvGet urlA])
   \<and> \<not> refusedBeforeDownload (sizedEnv 8388608) [] urlA
   \<and> refusedBeforeDownload (sizedEnv 8388609) [] urlA"
proof -
  have probe: "http_Head (sizedEnv n) [] urlA
      = (Some (okResponse\<lparr>StatusCode := 200, ContentLength := n\<rparr>), None)" for n
    by (simp add: sizedEnv_def)
  have download: "http_Get (sizedEnv n) ([] @ [EvHead urlA]) urlA
     = (Some (okResponse\<lparr>StatusCode := 200, ContentLength := n, Body_data := ''data''\<rparr>), None)" for n
    by (simp add: sizedEnv_def)
  show ?thesis
    using size_ceiling [OF probe download, of 8388607]
      size_ceiling [OF probe download, of 8388608]
      size_ceiling [OF probe download, of 8388609]
    by (simp add: okResponse_def)
qed

subsection \<open>Finding or creating the webhook\<close>

lemma scanWebhooks_last:
  "scanWebhooks hooks (b, w) =
     (if filter isRecognized hooks = [] then (b, w)
      else (True, Some (last (filter isRecognized hooks))))"
  by (induction hooks arbitrary: b w) (simp_all add: isRecognized_def)

lemma resolve_present:
  assumes "filter isRecognized (fst (ChannelWebhooks env h tid)) \<noteq> []"
  shows "resolveWebhook env h tid =
           (Returns (Some (last (filter isRecognized (fst (ChannelWebhooks env h tid))))),
            h @ [EvChannelWebhooks tid])"
  using assms by (simp add: resolveWebhook_def scanWebhooks_last)

lemma resolve_absent:
  assumes "filter isRecognized (fst (ChannelWebhooks env h tid)) = []"
  shows "resolveWebhook env h tid =
          (case fst (ChannelLookup env (h @ [EvChannelWebhooks tid]) tid) of
             None \<Rightarrow> (Panic, h @ [EvChannelWebhooks tid, EvChannel tid])
           | Some ch \<Rightarrow>
               (Returns (fst (WebhookCreate env (h @ [EvChannelWebhooks tid, EvChannel tid]) tid
                               (bridgeTag @ ch_Name ch) defaultIcon)),
                h @ [EvChannelWebhooks tid, EvChannel tid,
                     EvWebhookCreate tid (bridgeTag @ ch_Name ch) defaultIcon]))"
  using assms by (simp add: resolveWebhook_def scanWebhooks_last Let_def split: option.splits)

lemma resolveWebhook_history:
  "snd (resolveWebhook env h tid) = h @ [EvChannelWebhooks tid]
   \<or> snd (resolveWebhook env h tid) = h @ [EvChannelWebhooks tid, EvChannel tid]
   \<or> (\<exists>name. snd (resolveWebhook env h tid)
                 = h @ [EvChannelWebhooks tid, EvChannel tid, EvWebhookCreate tid name defaultIcon])"
  by (simp add: resolveWebhook_def Let_def split: prod.splits option.splits)

text \<open>Where the webhook that comes out of the resolution is from: the listing, and then
  it is tagged, or the creation call, which asked for a tagged name.\<close>

lemma resolve_origin:
  assumes resolved: "resolveWebhook env h tid = (Returns (Some wh), h1)"
  shows "(wh \<in> set (fst (ChannelWebhooks env h tid)) \<and> HasPrefix (wh_Name wh) bridgeTag)
         \<or> (\<exists>ch. filter isRecognized (fst (ChannelWebhooks env h tid)) = []
               \<and> fst (ChannelLookup env (h @ [EvChannelWebhooks tid]) tid) = Some ch
               \<and> fst (WebhookCreate env (h @ [EvChannelWebhooks tid, EvChannel tid]) tid
                        (''ChatPlug '' @ ch_Name ch) ''https://i.imgur.com/l2QP9Go.png'') = Some wh)"
proof (cases "filter isRecognized (fst (ChannelWebhooks env h tid)) = []")
  case False
  then have "last (filter isRecognized (fst (ChannelWebhooks env h tid)))
               \<in> set (filter isRecognized (fst (ChannelWebhooks env h tid)))"
    by (rule last_in_set)
  moreover have "wh = last (filter isRecognized (fst (ChannelWebhooks env h tid)))"
    using resolve_present [OF False] resolved by simp
  ultimately show ?thesis
    by (simp add: isRecognized_def)
next
  case True
  show ?thesis
  proof (cases "fst (ChannelLookup env (h @ [EvChannelWebhooks tid]) tid)")
    case None
    with resolve_absent [OF True] resolved show ?thesis
      by simp
  next
    case (Some ch)
    with resolve_absent [OF True] resolved
    have "fst (WebhookCreate env (h @ [EvChannelWebhooks tid, EvChannel tid]) tid
            (bridgeTag @ ch_Name ch) defaultIcon) = Some wh"
      by simp
    with True Some show ?thesis
      by (simp add: bridgeTag_def defaultIcon_def)
  qed
qed

subsection \<open>One hub message\<close>

text \<open>What a download, the attachment loop and one iteration add to the history.\<close>

lemma DownloadFile_history:
  "snd (DownloadFile env h url) = h @ [EvHead url]
   \<or> snd (DownloadFile env h url) = h @ [EvHead url, EvGet url]"
  by (simp add: DownloadFile_def Let_def split: prod.splits option.splits)

lemma writeAttachments_history:
  "\<exists>evs. snd (writeAttachments env h ats body) = h @ evs \<and> list_all isFetch evs"
proof (induction ats arbitrary: h body)
  case Nil
  show ?case by simp
next
  case (Cons a ats)
  obtain r h' where run: "DownloadFile env h (at_SourceURL a) = (r, h')"
    by (cases "DownloadFile env h (at_SourceURL a)")
  from DownloadFile_history [of env h "at_SourceURL a"] run
  obtain evs where h': "h' = h @ evs" and fetch: "list_all isFetch evs"
    by auto
  show ?case
  proof (cases r)
    case Panic
    with run h' fetch show ?thesis by auto
  next
    case (Returns res)
    obtain err written where res: "res = (err, written)"
      by (cases res)
    from Cons.IH [of h' "body @ [FormFile (Base (at_SourceURL a)) (Base (at_SourceURL a)) written]"]
    obtain evs' where
      "snd (writeAttachments env h' ats
              (body @ [FormFile (Base (at_SourceURL a)) (Base (at_SourceURL a)) written])) = h' @ evs'"
      and "list_all isFetch evs'"
      by blast
    with run Returns res h' fetch show ?thesis
      by (auto simp: Let_def)
  qed
qed

lemma filter_isWebhookCreate_fetches: "list_all isFetch evs \<Longrightarrow> filter isWebhookCreate evs = []"
  by (induction evs) (auto elim: isFetch.elims)

lemma handleMessage_shape:
  assumes "resolveWebhook env h (TargetThreadID msg) = (r, h1)"
  shows "\<exists>fetches. list_all isFetch fetches
           \<and> (snd (handleMessage env h msg) = h1 @ fetches
                \<or> (\<exists>wh body. r = Returns (Some wh)
                       \<and> snd (handleMessage env h msg) = h1 @ fetches @ [EvPost (webhookURL wh) body]))"
proof (cases r)
  case Panic
  with assms have "snd (handleMessage env h msg) = h1 @ []"
    by (simp add: handleMessage_def)
  then show ?thesis
    by (intro exI [of _ "[]"]) simp
next
  case (Returns w)
  show ?thesis
  proof (cases w)
    case None
    with assms Returns have "snd (handleMessage env h msg) = h1 @ []"
      by (simp add: handleMessage_def)
    then show ?thesis
      by (intro exI [of _ "[]"]) simp
  next
    case (Some webhook)
    define payload where "payload = json_Marshal env
               \<lparr>Content = msg_Body (Message msg),
                Username = au_Username (msg_Author (Message msg)),
                AvatarURL = au_AvatarURL (msg_Author (Message msg))\<rparr>"
    obtain b h2 where att: "writeAttachments env h1 (msg_Attachments (Message msg))
              [FormField ''payload_json'' payload] = (b, h2)"
      by (cases "writeAttachments env h1 (msg_Attachments (Message msg))
              [FormField ''payload_json'' payload]")
    obtain evs where h2: "h2 = h1 @ evs" and fetch: "list_all isFetch evs"
      using writeAttachments_history [of env h1 "msg_Attachments (Message msg)"
          "[FormField ''payload_json'' payload]"] att by auto
    have "snd (handleMessage env h msg) = h1 @ evs
          \<or> (\<exists>body. snd (handleMessage env h msg) = h1 @ evs @ [EvPost (webhookURL webhook) body])"
      using assms Returns Some att h2
      by (auto simp: handleMessage_def Let_def payload_def split: exec.splits option.splits)
    with fetch Returns Some show ?thesis
      by blast
  qed
qed

lemma filter_isPost_fetches: "list_all isFetch evs \<Longrightarrow> filter isPost evs = []"
  by (induction evs) (auto elim: isFetch.elims)

lemma handleMessage_posts:
  assumes "resolveWebhook env h (TargetThreadID msg) = (r, h1)"
  shows "filter isPost (drop (length h) (snd (handleMessage env h msg))) = []
         \<or> (\<exists>wh body. r = Returns (Some wh)
               \<and> filter isPost (drop (length h) (snd (handleMessage env h msg)))
                   = [EvPost (webhookURL wh) body])"
proof -
  obtain evs1 where h1: "h1 = h @ evs1" and quiet: "filter isPost evs1 = []"
    using resolveWebhook_history [of env h "TargetThreadID msg"] assms by auto
  from handleMessage_shape [OF assms] obtain fetches where
    fetch: "list_all isFetch fetches"
    and shape: "snd (handleMessage env h msg) = h1 @ fetches
                \<or> (\<exists>wh body. r = Returns (Some wh)
                       \<and> snd (handleMessage env h msg) = h1 @ fetches @ [EvPost (webhookURL wh) body])"
    by blast
  from shape show ?thesis
  proof
    assume "snd (handleMessage env h msg) = h1 @ fetches"
    then show ?thesis
      using h1 quiet filter_isPost_fetches [OF fetch] by simp
  next
    assume "\<exists>wh body. r = Returns (Some wh)
                       \<and> snd (handleMessage env h msg) = h1 @ fetches @ [EvPost (webhookURL wh) body]"
    then obtain wh body where "r = Returns (Some wh)"
      and "snd (handleMessage env h msg) = h1 @ fetches @ [EvPost (webhookURL wh) body]"
      by blast
    then show ?thesis
      using h1 quiet filter_isPost_fetches [OF fetch] by simp
  qed
qed

subsection \<open>The example runs\<close>

lemma Base_urlA: "Base urlA = ''a.png''"
  by (simp add: Base_def urlA_def stripTrailingSlashes_def lastElement_def)

lemma Base_urlB: "Base urlB = ''b.png''"
  by (simp add: Base_def urlB_def stripTrailingSlashes_def lastElement_def)

lemma bridgeHook_recognized: "HasPrefix (wh_Name bridgeHook) bridgeTag"
  by (simp add: bridgeHook_def bridgeTag_def HasPrefix_def)

lemma secondHook_recognized: "HasPrefix (wh_Name secondHook) bridgeTag"
  by (simp add: secondHook_def bridgeTag_def HasPrefix_def)

lemma resolve_hooked: "resolveWebhook hookedEnv h ''123'' = (Returns (Some bridgeHook), h @ [EvChannelWebhooks ''123''])"
  by (simp add: resolveWebhook_def hookedEnv_def postFailsEnv_def bridgeHook_recognized)

lemma resolve_partial: "resolveWebhook partialEnv h ''123'' = (Returns (Some bridgeHook), h @ [EvChannelWebhooks ''123''])"
  by (simp add: resolveWebhook_def partialEnv_def hookedEnv_def postFailsEnv_def bridgeHook_recognized)

lemma download_A: "DownloadFile partialEnv h urlA = (Returns (Some ''no such host'', []), h @ [EvHead urlA])"
  by (simp add: DownloadFile_def partialEnv_def urlA_def urlB_def)

lemma download_B: "DownloadFile partialEnv h urlB = (Returns (None, ''PNG''), h @ [EvHead urlB, EvGet urlB])"
  by (simp add: DownloadFile_def partialEnv_def okResponse_def maxContentLength_def)

lemma resolve_fresh:
  "resolveWebhook freshChannelEnv [] ''123'' =
      (Returns (Some createdHook), [EvChannelWebhooks ''123'', EvChannel ''123'',
              EvWebhookCreate ''123'' ''ChatPlug general'' ''https://i.imgur.com/l2QP9Go.png''])"
  by (simp add: resolveWebhook_def Let_def freshChannelEnv_def createFailsEnv_def channel123_def
      bridgeTag_def defaultIcon_def createdHook_def)

lemma handle_fresh:
  "handleMessage freshChannelEnv [] hiMessage =
     (Returns (),
      [EvChannelWebhooks ''123'', EvChannel ''123'',
       EvWebhookCreate ''123'' ''ChatPlug general'' ''https://i.imgur.com/l2QP9Go.png'',
       EvPost (webhookURL createdHook) [FormField ''payload_json'' ''hi'']])"
proof -
  have cfg: "http_NewRequest freshChannelEnv u = None"
    "http_Do freshChannelEnv hh u b = (Some okResponse, None)"
    "json_Marshal freshChannelEnv p = Content p" for u hh b p
    by (simp_all add: freshChannelEnv_def createFailsEnv_def idleEnv_def)
  show ?thesis
    by (simp add: handleMessage_def Let_def hiMessage_def resolve_fresh cfg)
qed

subsection \<open>Which webhook a message goes through\<close>

text \<open>
  C5, as stated, fails. With two tagged webhooks in the listing, \<open>bridgeHook\<close> before
  \<open>secondHook\<close>, the scan ends on \<open>secondHook\<close> and the message is posted to it: the first in
  listing order is not the one selected.
\<close>

theorem first_recognized_counterexample:
  "fst (ChannelWebhooks twoHooksEnv [] ''123'') = [bridgeHook, secondHook]
   \<and> HasPrefix (wh_Name bridgeHook) bridgeTag
   \<and> HasPrefix (wh_Name secondHook) bridgeTag
   \<and> bridgeHook \<noteq> secondHook
   \<and> fst (resolveWebhook twoHooksEnv [] ''123'') = Returns (Some secondHook)
   \<and> snd (handleMessage twoHooksEnv [] hiMessage) =
        [EvChannelWebhooks ''123'',
         EvPost (webhookURL secondHook) [FormField ''payload_json'' ''hi'']]"
proof -
  have res: "resolveWebhook twoHooksEnv [] ''123'' = (Returns (Some secondHook), [EvChannelWebhooks ''123''])"
    by (simp add: resolveWebhook_def twoHooksEnv_def bridgeHook_recognized secondHook_recognized)
  have cfg: "http_NewRequest twoHooksEnv u = None"
    "http_Do twoHooksEnv hh u b = (Some okResponse, None)"
    "json_Marshal twoHooksEnv p = Content p" for u hh b p
    by (simp_all add: twoHooksEnv_def hookedEnv_def postFailsEnv_def idleEnv_def)
  have listing: "fst (ChannelWebhooks twoHooksEnv [] ''123'') = [bridgeHook, secondHook]"
    by (simp add: twoHooksEnv_def)
  have "bridgeHook \<noteq> secondHook"
    by (simp add: bridgeHook_def secondHook_def)
  then show ?thesis
    using listing
    by (simp add: handleMessage_def Let_def hiMessage_def res cfg bridgeHook_recognized
        secondHook_recognized)
qed

text \<open>
  C5, amended. When the listing of the channel's webhooks holds at least one whose name
  starts with the tag, the one selected is the last such webhook in listing order (the
  only one, when there is one); no other call is made to find it, and if the iteration
  posts, it posts once, to that webhook's URL.
\<close>

theorem last_recognized_selected:
  assumes "filter isRecognized (fst (ChannelWebhooks env h (TargetThreadID msg))) \<noteq> []"
  shows "resolveWebhook env h (TargetThreadID msg) =
           (Returns (Some (last (filter isRecognized (fst (ChannelWebhooks env h (TargetThreadID msg)))))),
            h @ [EvChannelWebhooks (TargetThreadID msg)])
         \<and> (filter isPost (drop (length h) (snd (handleMessage env h msg))) = []
              \<or> (\<exists>body. filter isPost (drop (length h) (snd (handleMessage env h msg))) =
                    [EvPost (webhookURL (last (filter isRecognized
                        (fst (ChannelWebhooks env h (TargetThreadID msg)))))) body]))"
  using resolve_present [OF assms] handleMessage_posts [OF resolve_present [OF assms]]
  by auto

theorem last_recognized_selected_witness:
  "filter isRecognized (fst (ChannelWebhooks twoHooksEnv [] (TargetThreadID hiMessage))) \<noteq> []
   \<and> resolveWebhook twoHooksEnv [] (TargetThreadID hiMessage) =
       (Returns (Some secondHook), [EvChannelWebhooks ''123''])"
proof -
  have tid: "TargetThreadID hiMessage = ''123''"
    by (simp add: hiMessage_def)
  have listing: "filter isRecognized (fst (ChannelWebhooks twoHooksEnv [] ''123'')) = [bridgeHook, secondHook]"
    by (simp add: twoHooksEnv_def isRecognized_def bridgeHook_recognized secondHook_recognized)
  have present: "filter isRecognized (fst (ChannelWebhooks twoHooksEnv [] (TargetThreadID hiMessage))) \<noteq> []"
    by (simp add: tid listing)
  show ?thesis
    using last_recognized_selected [OF present] present
    by (simp add: tid listing)
qed

text \<open>
  C6 (proxy idempotence). A tagged webhook is in the channel's listing, and the listing at
  the second resolution is the one of the first. Then both resolutions return the same
  webhook, a tagged one, each makes the listing call only, and no creation call is made.
\<close>

theorem proxy_idempotence:
  assumes present: "filter isRecognized (fst (ChannelWebhooks env h tid)) \<noteq> []"
    and same: "fst (ChannelWebhooks env (snd (resolveWebhook env h tid)) tid)
                 = fst (ChannelWebhooks env h tid)"
  shows "\<exists>wh. isRecognized wh
           \<and> resolveWebhook env h tid = (Returns (Some wh), h @ [EvChannelWebhooks tid])
           \<and> resolveWebhook env (snd (resolveWebhook env h tid)) tid
               = (Returns (Some wh), h @ [EvChannelWebhooks tid, EvChannelWebhooks tid])
           \<and> filter isWebhookCreate
                (drop (length h) (snd (resolveWebhook env (snd (resolveWebhook env h tid)) tid))) = []"
proof -
  let ?wh = "last (filter isRecognized (fst (ChannelWebhooks env h tid)))"
  have first: "resolveWebhook env h tid = (Returns (Some ?wh), h @ [EvChannelWebhooks tid])"
    by (rule resolve_present [OF present])
  have present': "filter isRecognized (fst (ChannelWebhooks env (h @ [EvChannelWebhooks tid]) tid)) \<noteq> []"
    using same present first by simp
  have second: "resolveWebhook env (h @ [EvChannelWebhooks tid]) tid
      = (Returns (Some ?wh), h @ [EvChannelWebhooks tid, EvChannelWebhooks tid])"
    using resolve_present [OF present'] same first by simp
  have "?wh \<in> set (filter isRecognized (fst (ChannelWebhooks env h tid)))"
    using present by (rule last_in_set)
  then have "isRecognized ?wh"
    by simp
  with first second show ?thesis
    by simp
qed

theorem proxy_idempotence_witness:
  "filter isRecognized (fst (ChannelWebhooks hookedEnv [] ''123'')) \<noteq> []
   \<and> fst (ChannelWebhooks hookedEnv (snd (resolveWebhook hookedEnv [] ''123'')) ''123'')
       = fst (ChannelWebhooks hookedEnv [] ''123'')
   \<and> resolveWebhook hookedEnv [] ''123'' = (Returns (Some bridgeHook), [EvChannelWebhooks ''123''])
   \<and> resolveWebhook hookedEnv [EvChannelWebhooks ''123''] ''123''
       = (Returns (Some bridgeHook), [EvChannelWebhooks ''123'', EvChannelWebhooks ''123''])"
proof -
  have listing: "fst (ChannelWebhooks hookedEnv hh ''123'') = [bridgeHook]" for hh
    by (simp add: hookedEnv_def postFailsEnv_def)
  have present: "filter isRecognized (fst (ChannelWebhooks hookedEnv [] ''123'')) \<noteq> []"
    by (simp add: listing isRecognized_def bridgeHook_recognized)
  have same: "fst (ChannelWebhooks hookedEnv (snd (resolveWebhook hookedEnv [] ''123'')) ''123'')
       = fst (ChannelWebhooks hookedEnv [] ''123'')"
    by (simp add: listing)
  show ?thesis
    using proxy_idempotence [OF present same] present same
    by (simp add: resolve_hooked)
qed

text \<open>
  C7, as stated, fails. The channel has no tagged webhook and the channel lookup fails:
  \<^verbatim>\<open>channel\<close> is nil, \<^verbatim>\<open>channel.Name\<close> panics, and the iteration ends with no creation call and
  no POST.
\<close>

theorem creation_without_channel_counterexample:
  "filter isRecognized (fst (ChannelWebhooks noChannelEnv [] (TargetThreadID hiMessage))) = []
   \<and> handleMessage noChannelEnv [] hiMessage
       = (Panic, [EvChannelWebhooks ''123'', EvChannel ''123''])
   \<and> filter isWebhookCreate (snd (handleMessage noChannelEnv [] hiMessage)) = []
   \<and> filter isPost (snd (handleMessage noChannelEnv [] hiMessage)) = []"
proof -
  have res: "resolveWebhook noChannelEnv [] ''123'' = (Panic, [EvChannelWebhooks ''123'', EvChannel ''123''])"
    by (simp add: resolveWebhook_def Let_def noChannelEnv_def idleEnv_def)
  have run: "handleMessage noChannelEnv [] hiMessage
       = (Panic, [EvChannelWebhooks ''123'', EvChannel ''123''])"
    by (simp add: handleMessage_def hiMessage_def res)
  have listing: "filter isRecognized (fst (ChannelWebhooks noChannelEnv [] (TargetThreadID hiMessage))) = []"
    by (simp add: noChannelEnv_def)
  show ?thesis
    using listing by (simp add: run)
qed

text \<open>
  C7, amended (creation on first use). The listing of the target channel holds no tagged
  webhook and the channel lookup returns the channel. Then the iteration makes exactly one
  creation call, for the channel, with the name \<^verbatim>\<open>ChatPlug \<close> followed by the channel's name
  and with the fixed icon; it is made third, after the listing and the lookup, and every
  other call of the iteration, the POST among them, comes after it.
\<close>

theorem creates_one_webhook:
  assumes absent: "filter isRecognized (fst (ChannelWebhooks env h (TargetThreadID msg))) = []"
    and channel: "fst (ChannelLookup env (h @ [EvChannelWebhooks (TargetThreadID msg)])
                         (TargetThreadID msg)) = Some ch"
  shows "\<exists>rest. snd (handleMessage env h msg) =
                  h @ [EvChannelWebhooks (TargetThreadID msg), EvChannel (TargetThreadID msg),
                       EvWebhookCreate (TargetThreadID msg) (''ChatPlug '' @ ch_Name ch)
                         ''https://i.imgur.com/l2QP9Go.png''] @ rest
                \<and> filter isWebhookCreate rest = []"
proof -
  let ?tid = "TargetThreadID msg"
  let ?h1 = "h @ [EvChannelWebhooks ?tid, EvChannel ?tid,
                  EvWebhookCreate ?tid (bridgeTag @ ch_Name ch) defaultIcon]"
  have "resolveWebhook env h ?tid =
          (Returns (fst (WebhookCreate env (h @ [EvChannelWebhooks ?tid, EvChannel ?tid]) ?tid
                               (bridgeTag @ ch_Name ch) defaultIcon)), ?h1)"
    using resolve_absent [OF absent] channel by simp
  from handleMessage_shape [OF this] obtain fetches where
    fetch: "list_all isFetch fetches"
    and shape: "snd (handleMessage env h msg) = ?h1 @ fetches
                \<or> (\<exists>wh body. snd (handleMessage env h msg) = ?h1 @ fetches @ [EvPost (webhookURL wh) body])"
    by blast
  from shape show ?thesis
  proof
    assume "snd (handleMessage env h msg) = ?h1 @ fetches"
    then show ?thesis
      using filter_isWebhookCreate_fetches [OF fetch]
      by (simp add: bridgeTag_def defaultIcon_def)
  next
    assume "\<exists>wh body. snd (handleMessage env h msg) = ?h1 @ fetches @ [EvPost (webhookURL wh) body]"
    then obtain wh body where
      "snd (handleMessage env h msg) = ?h1 @ fetches @ [EvPost (webhookURL wh) body]"
      by blast
    then have "snd (handleMessage env h msg) =
                  h @ [EvChannelWebhooks ?tid, EvChannel ?tid,
                       EvWebhookCreate ?tid (''ChatPlug '' @ ch_Name ch)
                         ''https://i.imgur.com/l2QP9Go.png''] @ (fetches @ [EvPost (webhookURL wh) body])"
      by (simp add: bridgeTag_def defaultIcon_def)
    moreover have "filter isWebhookCreate (fetches @ [EvPost (webhookURL wh) body]) = []"
      using filter_isWebhookCreate_fetches [OF fetch] by simp
    ultimately show ?thesis
      by blast
  qed
qed

theorem creates_one_webhook_witness:
  "filter isRecognized (fst (ChannelWebhooks freshChannelEnv [] (TargetThreadID hiMessage))) = []
   \<and> fst (ChannelLookup freshChannelEnv ([] @ [EvChannelWebhooks (TargetThreadID hiMessage)])
            (TargetThreadID hiMessage)) = Some channel123
   \<and> snd (handleMessage freshChannelEnv [] hiMessage) =
       [EvChannelWebhooks ''123'', EvChannel ''123'',
        EvWebhookCreate ''123'' ''ChatPlug general'' ''https://i.imgur.com/l2QP9Go.png'',
        EvPost (webhookURL createdHook) [FormField ''payload_json'' ''hi'']]"
proof -
  have absent: "filter isRecognized (fst (ChannelWebhooks freshChannelEnv [] (TargetThreadID hiMessage))) = []"
    by (simp add: freshChannelEnv_def createFailsEnv_def)
  have channel: "fst (ChannelLookup freshChannelEnv ([] @ [EvChannelWebhooks (TargetThreadID hiMessage)])
            (TargetThreadID hiMessage)) = Some channel123"
    by (simp add: freshChannelEnv_def createFailsEnv_def)
  show ?thesis
    using creates_one_webhook [OF absent channel] absent channel
    by (simp add: handle_fresh)
qed

text \<open>
  C10, as stated, fails. The channel has no tagged webhook, the bridge asks for a webhook
  named \<^verbatim>\<open>ChatPlug general\<close>, and the platform answers with a webhook named \<^verbatim>\<open>Renamed\<close>. The
  returned name is never read: the message is posted through that webhook, whose name
  does not start with the tag.
\<close>

theorem created_webhook_renamed_counterexample:
  "filter isRecognized (fst (ChannelWebhooks renamingEnv [] ''123'')) = []
   \<and> handleMessage renamingEnv [] hiMessage =
     (Returns (),
      [EvChannelWebhooks ''123'', EvChannel ''123'',
       EvWebhookCreate ''123'' ''ChatPlug general'' ''https://i.imgur.com/l2QP9Go.png'',
       EvPost (webhookURL renamedHook) [FormField ''payload_json'' ''hi'']])
   \<and> fst (resolveWebhook renamingEnv [] ''123'') = Returns (Some renamedHook)
   \<and> \<not> HasPrefix (wh_Name renamedHook) bridgeTag"
proof -
  have res: "resolveWebhook renamingEnv [] ''123'' =
      (Returns (Some renamedHook), [EvChannelWebhooks ''123'', EvChannel ''123'',
              EvWebhookCreate ''123'' ''ChatPlug general'' ''https://i.imgur.com/l2QP9Go.png''])"
    by (simp add: resolveWebhook_def Let_def renamingEnv_def freshChannelEnv_def createFailsEnv_def
        channel123_def bridgeTag_def defaultIcon_def)
  have cfg: "http_NewRequest renamingEnv u = None"
    "http_Do renamingEnv hh u b = (Some okResponse, None)"
    "json_Marshal renamingEnv p = Content p" for u hh b p
    by (simp_all add: renamingEnv_def freshChannelEnv_def createFailsEnv_def idleEnv_def)
  have listing: "filter isRecognized (fst (ChannelWebhooks renamingEnv [] ''123'')) = []"
    by (simp add: renamingEnv_def freshChannelEnv_def createFailsEnv_def)
  have untagged: "\<not> HasPrefix (wh_Name renamedHook) bridgeTag"
    by (simp add: renamedHook_def bridgeTag_def HasPrefix_def)
  show ?thesis
    using listing untagged
    by (simp add: handleMessage_def Let_def hiMessage_def res cfg)
qed

text \<open>
  C10, amended. Every POST of an iteration goes to the URL of the webhook that the
  resolution returned. That webhook is either one of the channel's listing, and then its
  name starts with \<^verbatim>\<open>ChatPlug \<close>, or, with no tagged webhook in the listing, the one returned
  by the creation call that asked for the name \<^verbatim>\<open>ChatPlug \<close> followed by the channel's name;
  the name of a created webhook starts with the tag when the platform returned it under
  the name that was asked for.
\<close>

theorem posts_through_resolved_webhook:
  assumes post: "EvPost url body \<in> set (drop (length h) (snd (handleMessage env h msg)))"
  shows "\<exists>wh. fst (resolveWebhook env h (TargetThreadID msg)) = Returns (Some wh)
            \<and> url = webhookURL wh
            \<and> ((wh \<in> set (fst (ChannelWebhooks env h (TargetThreadID msg)))
                  \<and> HasPrefix (wh_Name wh) bridgeTag)
                \<or> (\<exists>ch. filter isRecognized (fst (ChannelWebhooks env h (TargetThreadID msg))) = []
                      \<and> fst (ChannelLookup env (h @ [EvChannelWebhooks (TargetThreadID msg)])
                               (TargetThreadID msg)) = Some ch
                      \<and> fst (WebhookCreate env
                               (h @ [EvChannelWebhooks (TargetThreadID msg),
                                     EvChannel (TargetThreadID msg)])
                               (TargetThreadID msg) (''ChatPlug '' @ ch_Name ch)
                               ''https://i.imgur.com/l2QP9Go.png'') = Some wh
                      \<and> (wh_Name wh = ''ChatPlug '' @ ch_Name ch
                            \<longrightarrow> HasPrefix (wh_Name wh) bridgeTag)))"
proof -
  obtain r h1 where resolved: "resolveWebhook env h (TargetThreadID msg) = (r, h1)"
    by (cases "resolveWebhook env h (TargetThreadID msg)")
  have mem: "EvPost url body \<in> set (filter isPost (drop (length h) (snd (handleMessage env h msg))))"
    using post by simp
  from handleMessage_posts [OF resolved] consider
    (none) "filter isPost (drop (length h) (snd (handleMessage env h msg))) = []"
    | (one) wh body' where "r = Returns (Some wh)"
        "filter isPost (drop (length h) (snd (handleMessage env h msg))) = [EvPost (webhookURL wh) body']"
    by blast
  then obtain wh where r: "r = Returns (Some wh)" and url: "url = webhookURL wh"
  proof cases
    case none
    from mem have False
      unfolding none by simp
    then show ?thesis ..
  next
    case (one wh body')
    from mem have "url = webhookURL wh"
      unfolding one(2) by simp
    with one(1) that show ?thesis
      by blast
  qed
  have tagged: "HasPrefix (''ChatPlug '' @ n) bridgeTag" for n
    by (simp add: HasPrefix_def bridgeTag_def)
  from resolved r have "resolveWebhook env h (TargetThreadID msg) = (Returns (Some wh), h1)"
    by simp
  from resolve_origin [OF this] resolved r url tagged show ?thesis
    by auto
qed

theorem posts_through_resolved_webhook_witness:
  "EvPost (webhookURL createdHook) [FormField ''payload_json'' ''hi'']
     \<in> set (drop (length ([] :: event list)) (snd (handleMessage freshChannelEnv [] hiMessage)))
   \<and> fst (resolveWebhook freshChannelEnv [] (TargetThreadID hiMessage)) = Returns (Some createdHook)
   \<and> fst (WebhookCreate freshChannelEnv [EvChannelWebhooks ''123'', EvChannel ''123''] ''123''
            ''ChatPlug general'' ''https://i.imgur.com/l2QP9Go.png'') = Some createdHook
   \<and> HasPrefix (wh_Name createdHook) bridgeTag"
proof -
  have post: "EvPost (webhookURL createdHook) [FormField ''payload_json'' ''hi'']
     \<in> set (drop (length ([] :: event list)) (snd (handleMessage freshChannelEnv [] hiMessage)))"
    by (simp add: handle_fresh)
  have resolved: "fst (resolveWebhook freshChannelEnv [] (TargetThreadID hiMessage)) = Returns (Some createdHook)"
    by (simp add: resolve_fresh hiMessage_def)
  have listing: "fst (ChannelWebhooks freshChannelEnv hh c) = []" for hh c
    by (simp add: freshChannelEnv_def createFailsEnv_def)
  have lookup: "fst (ChannelLookup freshChannelEnv hh c) = Some channel123" for hh c
    by (simp add: freshChannelEnv_def createFailsEnv_def)
  have created: "fst (WebhookCreate freshChannelEnv hh c ''ChatPlug general'' a) = Some createdHook" for hh c a
    by (simp add: freshChannelEnv_def createdHook_def)
  have name: "wh_Name createdHook = ''ChatPlug '' @ ch_Name channel123"
    by (simp add: createdHook_def channel123_def)
  show ?thesis
    using posts_through_resolved_webhook [OF post] post resolved created name
    by (auto simp: listing lookup)
qed

subsection \<open>Attachments and failures\<close>

text \<open>
  C2 is not what the code does. The first attachment's host is unreachable and the second
  download succeeds. The failed download is logged and the loop goes on, the POST is sent
  and it has the \<^verbatim>\<open>payload_json\<close> field and the second file; but the body also has a file part
  \<^verbatim>\<open>a.png\<close> for the failed attachment, with no content, because the part is opened before
  the download is tried. The failed attachment's part is not omitted.
\<close>

theorem failed_attachment_part_posted:
  "fst (DownloadFile partialEnv [EvChannelWebhooks ''123''] urlA) = Returns (Some ''no such host'', [])
   \<and> fst (DownloadFile partialEnv [EvChannelWebhooks ''123'', EvHead urlA] urlB) = Returns (None, ''PNG'')
   \<and> handleMessage partialEnv [] twoAttachments =
       (Returns (),
        [EvChannelWebhooks ''123'', EvHead urlA, EvHead urlB, EvGet urlB,
         EvPost (webhookURL bridgeHook)
           [FormField ''payload_json'' ''hi'', FormFile ''a.png'' ''a.png'' [],
            FormFile ''b.png'' ''b.png'' ''PNG'']])
   \<and> Base urlA \<in> set (fileNames
           [FormField ''payload_json'' ''hi'', FormFile ''a.png'' ''a.png'' [],
            FormFile ''b.png'' ''b.png'' ''PNG''])"
proof -
  have cfg: "http_NewRequest partialEnv u = None"
    "http_Do partialEnv hh u b = (Some okResponse, None)"
    "json_Marshal partialEnv p = Content p" for u hh b p
    by (simp_all add: partialEnv_def hookedEnv_def postFailsEnv_def idleEnv_def)
  have msg: "TargetThreadID twoAttachments = ''123''"
    "msg_Attachments (Message twoAttachments) = [\<lparr>at_SourceURL = urlA\<rparr>, \<lparr>at_SourceURL = urlB\<rparr>]"
    "msg_Body (Message twoAttachments) = ''hi''"
    by (simp_all add: twoAttachments_def hiMessage_def)
  show ?thesis
    by (simp add: handleMessage_def Let_def msg resolve_partial download_A download_B cfg Base_urlA Base_urlB)
qed

text \<open>The same for any message with two attachments of which the first download returns
  an error: the part opened for it is in the body that is posted, with whatever had been
  written to it.\<close>

lemma attachment_failure_body:
  assumes resolved: "resolveWebhook env h (TargetThreadID msg) = (Returns (Some webhook), h1)"
    and two: "msg_Attachments (Message msg) = [a1, a2]"
    and first_fails: "DownloadFile env h1 (at_SourceURL a1) = (Returns (Some e, written1), h2)"
    and second_ok: "DownloadFile env h2 (at_SourceURL a2) = (Returns (None, written2), h3)"
    and request: "http_NewRequest env (webhookURL webhook) = None"
  shows "snd (handleMessage env h msg) =
           h3 @ [EvPost (webhookURL webhook)
                  [FormField ''payload_json''
                     (json_Marshal env
                        \<lparr>Content = msg_Body (Message msg),
                         Username = au_Username (msg_Author (Message msg)),
                         AvatarURL = au_AvatarURL (msg_Author (Message msg))\<rparr>),
                   FormFile (Base (at_SourceURL a1)) (Base (at_SourceURL a1)) written1,
                   FormFile (Base (at_SourceURL a2)) (Base (at_SourceURL a2)) written2]]"
  using assms by (simp add: handleMessage_def Let_def split: option.splits)

text \<open>When the calls succeed the loop handles one message after the other.\<close>

lemma both_messages_posted:
  "handleMessages hookedEnv [] [hiMessage, hiMessage] =
     (Returns (),
      [EvChannelWebhooks ''123'',
       EvPost (webhookURL bridgeHook) [FormField ''payload_json'' ''hi''],
       EvChannelWebhooks ''123'',
       EvPost (webhookURL bridgeHook) [FormField ''payload_json'' ''hi'']])"
proof -
  have cfg: "http_NewRequest hookedEnv u = None"
    "http_Do hookedEnv hh u b = (Some okResponse, None)"
    "json_Marshal hookedEnv p = Content p" for u hh b p
    by (simp_all add: hookedEnv_def postFailsEnv_def idleEnv_def)
  show ?thesis
    by (simp add: handleMessage_def Let_def hiMessage_def resolve_hooked cfg)
qed

text \<open>
  C3 is not what the code does. Two messages are waiting. In the first run the channel
  has no webhook and the creation fails: \<^verbatim>\<open>webhook\<close> is nil and \<^verbatim>\<open>webhook.ID\<close> panics. In the
  second run the POST fails: \<^verbatim>\<open>response\<close> is nil and \<^verbatim>\<open>response.StatusCode\<close> panics after the
  error was printed. Either way the loop ends in the first iteration and the second
  message is never handled.
\<close>

theorem failed_call_stops_loop:
  "handleMessages createFailsEnv [] [hiMessage, hiMessage] =
     (Panic, [EvChannelWebhooks ''123'', EvChannel ''123'',
              EvWebhookCreate ''123'' ''ChatPlug general'' defaultIcon])
   \<and> handleMessages postFailsEnv [] [hiMessage, hiMessage] =
     (Panic, [EvChannelWebhooks ''123'',
              EvPost (webhookURL bridgeHook) [FormField ''payload_json'' ''hi'']])"
proof -
  have create: "resolveWebhook createFailsEnv [] ''123'' =
      (Returns None, [EvChannelWebhooks ''123'', EvChannel ''123'',
              EvWebhookCreate ''123'' ''ChatPlug general'' defaultIcon])"
    by (simp add: resolveWebhook_def createFailsEnv_def idleEnv_def channel123_def bridgeTag_def)
  have post: "resolveWebhook postFailsEnv [] ''123'' = (Returns (Some bridgeHook), [EvChannelWebhooks ''123''])"
    by (simp add: resolveWebhook_def postFailsEnv_def bridgeHook_recognized)
  have cfg: "http_NewRequest postFailsEnv u = None"
    "http_Do postFailsEnv hh u b = (None, Some ''no such host'')"
    "json_Marshal postFailsEnv p = Content p" for u hh b p
    by (simp_all add: postFailsEnv_def idleEnv_def)
  show ?thesis
    by (simp add: handleMessage_def Let_def hiMessage_def create post cfg)
qed

subsection \<open>Search\<close>

text \<open>The two loops collect the first 30 candidates of the enumeration.\<close>

lemma searchChannels_take:
  "searchChannels query guild channels acc =
     acc @ take (30 - length acc) (map (searchResult guild) (filter (isCandidate query guild) channels))"
proof (induction channels arbitrary: acc)
  case Nil
  show ?case by simp
next
  case (Cons channel channels)
  show ?case
  proof (cases "length acc < 30 \<and> isCandidate query guild channel")
    case True
    then have "length acc < 30"
      by simp
    then have "30 - length acc = Suc (29 - length acc)"
      by arith
    with True Cons.IH [of "acc @ [searchResult guild channel]"] show ?thesis
      by (auto simp: isCandidate_def Contains_sublist)
  next
    case False
    with Cons.IH [of acc] show ?thesis
      by (auto simp: isCandidate_def Contains_sublist)
  qed
qed

lemma searchGuilds_take:
  "searchGuilds env h query guilds acc =
     (acc @ take (30 - length acc) (candidates query (guildListings env h guilds)),
      h @ map (\<lambda>guild. EvGuildChannels (g_ID guild)) guilds)"
proof (induction guilds arbitrary: h acc)
  case Nil
  show ?case by (simp add: candidates_def)
next
  case (Cons guild guilds)
  show ?case
    by (simp add: Cons.IH searchChannels_take candidates_def Let_def min_def)
qed

text \<open>
  C8 (search). For every query the responder answers once, after asking for the channels
  of each guild in turn, and the results it hands to the hub are the first 30 candidates in
  guild-then-channel order. So there are at most 30, and each comes from a text channel of
  a listed guild such that the query is a substring, byte for byte, of the channel's name
  or of the guild's name; its display name is the guild's name, \<^verbatim>\<open> - \<close> and the channel's
  name, and its origin ID is the channel's ID.
\<close>

theorem search_response:
  "\<exists>results.
      handleSearchRequest env h guilds query =
        h @ map (\<lambda>guild. EvGuildChannels (g_ID guild)) guilds @ [EvSetSearchResponse query results]
      \<and> results = take 30 (candidates query (guildListings env h guilds))
      \<and> length results \<le> 30
      \<and> (\<forall>r \<in> set results.
            \<exists>guild channels channel.
              (guild, channels) \<in> set (guildListings env h guilds)
              \<and> channel \<in> set channels
              \<and> ch_Type channel = ChannelTypeGuildText
              \<and> (sublist query (ch_Name channel) \<or> sublist query (g_Name guild))
              \<and> sti_Name r = g_Name guild @ '' - '' @ ch_Name channel
              \<and> sti_OriginID r = ch_ID channel)"
proof -
  let ?results = "take 30 (candidates query (guildListings env h guilds))"
  have run: "handleSearchRequest env h guilds query =
        h @ map (\<lambda>guild. EvGuildChannels (g_ID guild)) guilds @ [EvSetSearchResponse query ?results]"
    by (simp add: handleSearchRequest_def searchGuilds_take)
  have origin: "\<exists>guild channels channel.
              (guild, channels) \<in> set (guildListings env h guilds)
              \<and> channel \<in> set channels
              \<and> ch_Type channel = ChannelTypeGuildText
              \<and> (sublist query (ch_Name channel) \<or> sublist query (g_Name guild))
              \<and> sti_Name r = g_Name guild @ '' - '' @ ch_Name channel
              \<and> sti_OriginID r = ch_ID channel" if "r \<in> set ?results" for r
  proof -
    from that have "r \<in> set (candidates query (guildListings env h guilds))"
      by (rule in_set_takeD)
    then obtain guild channels channel where
      "(guild, channels) \<in> set (guildListings env h guilds)"
      "channel \<in> set channels" "isCandidate query guild channel" "r = searchResult guild channel"
      by (auto simp: candidates_def)
    then show ?thesis
      by (auto simp: isCandidate_def searchResult_def)
  qed
  from run origin show ?thesis
    by simp
qed

theorem search_response_witness:
  "handleSearchRequest searchEnv [] [testGuild] ''general'' =
     [EvGuildChannels ''g1'',
      EvSetSearchResponse ''general''
        [\<lparr>sti_Name = ''Test Guild - general-chat'',
          sti_IconURL = ''http://cdn.discordapp.com/icons/g1/abc.png'',
          sti_OriginID = ''555''\<rparr>]]
   \<and> handleSearchRequest searchEnv [] [testGuild] ''General'' =
     [EvGuildChannels ''g1'', EvSetSearchResponse ''General'' []]"
proof -
  have cands: "candidates ''general'' [(testGuild, fst (GuildChannels searchEnv [] ''g1''))] =
      [\<lparr>sti_Name = ''Test Guild - general-chat'',
          sti_IconURL = ''http://cdn.discordapp.com/icons/g1/abc.png'',
          sti_OriginID = ''555''\<rparr>]"
    by (simp add: candidates_def searchEnv_def isCandidate_def Contains_sublist [symmetric]
        HasPrefix_def testGuild_def generalChat_def generalVoice_def randomChat_def
        ChannelTypeGuildText_def searchResult_def)
  have none: "candidates ''General'' [(testGuild, fst (GuildChannels searchEnv [] ''g1''))] = []"
    by (simp add: candidates_def searchEnv_def isCandidate_def Contains_sublist [symmetric]
        HasPrefix_def testGuild_def generalChat_def generalVoice_def randomChat_def
        ChannelTypeGuildText_def)
  have gid: "g_ID testGuild = ''g1''"
    by (simp add: testGuild_def)
  show ?thesis
    using search_response [of searchEnv "[]" "[testGuild]" "''general''"]
      search_response [of searchEnv "[]" "[testGuild]" "''General''"]
    by (simp add: cands none gid)
qed

end
